theory Spec2Isabelle
  imports Complex_Main "HOL-Library.AList" "HOL-Library.Sublist"
begin

section \<open>JavaScript values and the platform\<close>

text \<open>
  The client keeps chat messages as plain JavaScript objects obtained from \<open>JSON.parse\<close>
  (transport.js) or built locally (main.js). They are modelled as JSON values; an object is
  the list of its own properties in insertion order (a name occurs once in an object that
  comes from JavaScript; a read finds the first). Numbers that the code computes with
  (version tag, timestamp, lengths) are integers. The result of reading a property that is
  not there (\<open>undefined\<close>) is \<open>None\<close>.
\<close>

datatype json =
    JNull
  | JBool bool
  | JNum int
  | JStr string
  | JArr "json list"
  | JObj "(string \<times> json) list"

datatype js_error = TypeError | SyntaxError | QuotaExceededError

text \<open>
  What the browser provides and the repository does not define: \<open>JSON.parse\<close> (\<open>None\<close>
  when it throws a SyntaxError), \<open>JSON.stringify\<close>, the numeric coercion of strings,
  arrays and objects, and the browser's decision whether a \<open>localStorage.setItem\<close> fits
  its quota. They are parameters of the model.
\<close>

record platform =
  JSON_parse :: "string \<Rightarrow> json option"
  JSON_stringify :: "json \<Rightarrow> string"
  ToNumber :: "json \<Rightarrow> int option"
  setItem_accepts :: "(string \<times> string) list \<Rightarrow> string \<Rightarrow> string \<Rightarrow> bool"

text \<open>config.js: the exported, server-overridable limits.\<close>

record config =
  MAX_MESSAGE_BYTES :: nat
  MAX_MESSAGES :: nat
  STORAGE_MAX_BYTES :: nat
  STORAGE_MAX_AGE_DAYS :: nat

definition default_config :: config where
  "default_config =
     \<lparr> MAX_MESSAGE_BYTES = 16 * 1024 * 1024,
       MAX_MESSAGES = 100,
       STORAGE_MAX_BYTES = 5 * 1024 * 1024,
       STORAGE_MAX_AGE_DAYS = 7 \<rparr>"

text \<open>
  \<open>applyServerConfig\<close> (config.js), on the numeric fields; a field that is absent or
  not a finite number is \<open>None\<close>.
\<close>

record server_config =
  maxMessageBytes :: "nat option"
  maxMessages :: "nat option"
  storageMaxBytes :: "nat option"
  storageMaxAgeDays :: "nat option"

definition applyServerConfig :: "server_config \<Rightarrow> config \<Rightarrow> config" where
  "applyServerConfig cfg c =
    (let c1 = (case maxMessageBytes cfg of
                 Some v \<Rightarrow> c\<lparr>MAX_MESSAGE_BYTES := v\<rparr>
               | None \<Rightarrow> c);
         c2 = (case maxMessages cfg of
                 Some v \<Rightarrow> if v > 0 then c1\<lparr>MAX_MESSAGES := max 10 (min 1000 v)\<rparr> else c1
               | None \<Rightarrow> c1);
         c3 = (case storageMaxBytes cfg of
                 Some v \<Rightarrow> if v > 0 then c2\<lparr>STORAGE_MAX_BYTES := max (1024 * 1024) v\<rparr> else c2
               | None \<Rightarrow> c2);
         c4 = (case storageMaxAgeDays cfg of
                 Some v \<Rightarrow> if v > 0 then c3\<lparr>STORAGE_MAX_AGE_DAYS := max 1 v\<rparr> else c3
               | None \<Rightarrow> c3)
     in c4)"

text \<open>Truthiness of a value and of a possibly undefined value.\<close>

fun truthy :: "json \<Rightarrow> bool" where
  "truthy JNull = False"
| "truthy (JBool b) = b"
| "truthy (JNum n) = (n \<noteq> 0)"
| "truthy (JStr s) = (s \<noteq> [])"
| "truthy (JArr xs) = True"
| "truthy (JObj kvs) = True"

definition truthy_opt :: "json option \<Rightarrow> bool" where
  "truthy_opt v = (case v of None \<Rightarrow> False | Some x \<Rightarrow> truthy x)"

text \<open>
  Property read \<open>v.k\<close> for the names the code reads (\<open>type\<close>, \<open>version\<close>,
  \<open>messages\<close>, \<open>timestamp\<close>, \<open>length\<close>): a TypeError on \<open>null\<close>, the own property of
  an object, the length of an array or a string, \<open>undefined\<close> otherwise.
\<close>

fun js_get :: "json \<Rightarrow> string \<Rightarrow> js_error + json option" where
  "js_get JNull k = Inl TypeError"
| "js_get (JObj kvs) k = Inr (map_of kvs k)"
| "js_get (JArr xs) k = Inr (if k = ''length'' then Some (JNum (int (length xs))) else None)"
| "js_get (JStr s) k = Inr (if k = ''length'' then Some (JNum (int (length s))) else None)"
| "js_get (JBool b) k = Inr None"
| "js_get (JNum n) k = Inr None"

definition to_number :: "platform \<Rightarrow> json \<Rightarrow> int option" where
  "to_number p v =
     (case v of
        JNum n \<Rightarrow> Some n
      | JBool b \<Rightarrow> Some (if b then 1 else 0)
      | JNull \<Rightarrow> Some 0
      | _ \<Rightarrow> ToNumber p v)"

text \<open>
  \<open>xs.slice(-n)\<close> for a non-negative integer \<open>n\<close>: the last \<open>n\<close> elements, and the
  whole list when \<open>n\<close> is 0, because \<open>-0\<close> is not negative.
\<close>

definition slice_neg :: "nat \<Rightarrow> 'a list \<Rightarrow> 'a list" where
  "slice_neg n xs = (if n = 0 then xs else drop (length xs - n) xs)"

section \<open>storage.js\<close>

type_synonym localStorage = "(string \<times> string) list"

definition getItem :: "localStorage \<Rightarrow> string \<Rightarrow> string option" where
  "getItem st k = map_of st k"

definition removeItem :: "localStorage \<Rightarrow> string \<Rightarrow> localStorage" where
  "removeItem st k = AList.delete k st"

definition setItem :: "platform \<Rightarrow> localStorage \<Rightarrow> string \<Rightarrow> string \<Rightarrow> js_error + localStorage" where
  "setItem p st k v =
     (if setItem_accepts p st k v then Inr (AList.update k v st) else Inl QuotaExceededError)"

fun prepareMessageForStorage :: "json \<Rightarrow> js_error + json option" where
  "prepareMessageForStorage JNull = Inl TypeError"
| "prepareMessageForStorage (JObj kvs) =
     (if map_of kvs ''type'' = Some (JStr ''text'') \<or> map_of kvs ''type'' = Some (JStr ''status'')
      then Inr (Some (JObj kvs))
      else if map_of kvs ''type'' = Some (JStr ''file'')
      then Inr (Some (JObj (AList.delete ''data'' kvs)))
      else Inr None)"
| "prepareMessageForStorage m = Inr None"

definition STORAGE_PREFIX :: string where
  "STORAGE_PREFIX = ''lanchat_room_''"

definition STORAGE_VERSION :: int where
  "STORAGE_VERSION = 1"

definition getStorageKey :: "string \<Rightarrow> string" where
  "getStorageKey roomId = STORAGE_PREFIX @ roomId"

definition getStorageUsage :: "localStorage \<Rightarrow> nat" where
  "getStorageUsage st = sum_list (map (\<lambda>(k, v). length v * 2) st)"

text \<open>
  \<open>loadRoomMessages\<close>: the value returned and the store afterwards. Every exception of
  the body is caught and turned into the empty array; the only write, \<open>removeItem\<close>, is
  followed by a return.
\<close>

definition loadRoomMessages :: "platform \<Rightarrow> config \<Rightarrow> localStorage \<Rightarrow> string \<Rightarrow> json \<times> localStorage" where
  "loadRoomMessages p c st roomId =
    (let key = getStorageKey roomId in
     case getItem st key of
       None \<Rightarrow> (JArr [], st)
     | Some stored \<Rightarrow>
         if stored = [] then (JArr [], st)
         else
           (case JSON_parse p stored of
              None \<Rightarrow> (JArr [], st)
            | Some data \<Rightarrow>
                (case js_get data ''version'' of
                   Inl e \<Rightarrow> (JArr [], st)
                 | Inr version \<Rightarrow>
                     if \<not> truthy_opt version \<or> version \<noteq> Some (JNum STORAGE_VERSION)
                     then (JArr [], removeItem st key)
                     else
                       (case js_get data ''messages'' of
                          Inl e \<Rightarrow> (JArr [], st)
                        | Inr messages \<Rightarrow>
                            let allMessages = (if truthy_opt messages then the messages else JArr []) in
                            (case js_get allMessages ''length'' of
                               Inl e \<Rightarrow> (JArr [], st)
                             | Inr len \<Rightarrow>
                                 if (case len of
                                       None \<Rightarrow> False
                                     | Some l \<Rightarrow>
                                         (case to_number p l of
                                            None \<Rightarrow> False
                                          | Some n \<Rightarrow> n > int (MAX_MESSAGES c)))
                                 then
                                   (case allMessages of
                                      JArr xs \<Rightarrow> (JArr (slice_neg (MAX_MESSAGES c) xs), st)
                                    | JStr s \<Rightarrow> (JStr (slice_neg (MAX_MESSAGES c) s), st)
                                    | _ \<Rightarrow> (JArr [], st))
                                 else (allMessages, st))))))"

text \<open>
  \<open>cleanupExpiredData(maxAge)\<close> at clock reading \<open>now\<close>: a record under the prefix is
  removed when its text does not parse, when reading its timestamp throws, or when the
  timestamp is truthy and older than \<open>maxAge\<close>.
\<close>

definition expired :: "platform \<Rightarrow> int \<Rightarrow> rat \<Rightarrow> string \<Rightarrow> bool" where
  "expired p now maxAge text =
     (case JSON_parse p text of
        None \<Rightarrow> True
      | Some data \<Rightarrow>
          (case js_get data ''timestamp'' of
             Inl e \<Rightarrow> True
           | Inr ts \<Rightarrow>
               truthy_opt ts \<and>
               (case to_number p (the ts) of
                  None \<Rightarrow> False
                | Some t \<Rightarrow> of_int (now - t) > maxAge)))"

definition cleanupExpiredData :: "platform \<Rightarrow> int \<Rightarrow> rat \<Rightarrow> localStorage \<Rightarrow> localStorage" where
  "cleanupExpiredData p now maxAge st =
     (let keysToRemove =
            map fst (filter (\<lambda>(key, text). prefix STORAGE_PREFIX key \<and> expired p now maxAge text) st)
      in fold (\<lambda>key s. removeItem s key) keysToRemove st)"

definition defaultMaxAge :: "config \<Rightarrow> rat" where
  "defaultMaxAge c = of_nat (STORAGE_MAX_AGE_DAYS c * 24 * 60 * 60 * 1000)"

definition cleanupNonExistentRooms :: "string list \<Rightarrow> string \<Rightarrow> localStorage \<Rightarrow> localStorage" where
  "cleanupNonExistentRooms existingRooms currentRoomId st =
     (let existingRoomSet = set existingRooms \<union> {currentRoomId};
          keysToRemove =
            filter (\<lambda>key. prefix STORAGE_PREFIX key \<and>
                           drop (length STORAGE_PREFIX) key \<notin> existingRoomSet)
                   (map fst st)
      in fold (\<lambda>key s. removeItem s key) keysToRemove st)"

text \<open>
  \<open>saveRoomMessages\<close>. \<open>map_prepare\<close> is \<open>messages.map(prepareMessageForStorage)\<close>,
  which stops at the first exception; \<open>filter_not_null\<close> is the filter after it. \<open>roomRecord\<close> is the object literal \<open>data\<close>.
  \<open>budgetStep\<close> is the size estimate with its two fallbacks: it returns the store after the
  optional purge, the final message list and the text to write. The function returns the
  exception it rethrows, if any, and the store afterwards; the purge stays done when the
  write is refused. The two \<open>Date.now()\<close> readings of one call are the same \<open>now\<close>.
\<close>

fun map_prepare :: "json list \<Rightarrow> js_error + json option list" where
  "map_prepare [] = Inr []"
| "map_prepare (m # ms) =
     (case prepareMessageForStorage m of
        Inl e \<Rightarrow> Inl e
      | Inr r \<Rightarrow> (case map_prepare ms of Inl e \<Rightarrow> Inl e | Inr rs \<Rightarrow> Inr (r # rs)))"

fun filter_not_null :: "json option list \<Rightarrow> json list" where
  "filter_not_null [] = []"
| "filter_not_null (None # rs) = filter_not_null rs"
| "filter_not_null (Some m # rs) = m # filter_not_null rs"

definition roomRecord :: "string \<Rightarrow> json list \<Rightarrow> int \<Rightarrow> json" where
  "roomRecord roomId msgs now =
     JObj [(''version'', JNum STORAGE_VERSION),
           (''roomId'', JStr roomId),
           (''messages'', JArr msgs),
           (''timestamp'', JNum now)]"

definition budgetStep ::
  "platform \<Rightarrow> config \<Rightarrow> int \<Rightarrow> localStorage \<Rightarrow> string \<Rightarrow> json list \<Rightarrow> localStorage \<times> json list \<times> string" where
  "budgetStep p c now st roomId storableMessages =
    (let jsonString = JSON_stringify p (roomRecord roomId storableMessages now);
         newSize = length jsonString * 2
     in if getStorageUsage st + newSize > STORAGE_MAX_BYTES c then
          (let st1 = cleanupExpiredData p now (defaultMaxAge c) st in
           if getStorageUsage st1 + newSize > STORAGE_MAX_BYTES c then
             (let keepCount = length storableMessages div 2;
                  finalMessages = slice_neg keepCount storableMessages
              in (st1, finalMessages, JSON_stringify p (roomRecord roomId finalMessages now)))
           else (st1, storableMessages, jsonString))
        else (st, storableMessages, jsonString))"

definition saveRoomMessages ::
  "platform \<Rightarrow> config \<Rightarrow> int \<Rightarrow> localStorage \<Rightarrow> string \<Rightarrow> json list \<Rightarrow> js_error option \<times> localStorage" where
  "saveRoomMessages p c now st roomId messages =
    (case map_prepare messages of
       Inl e \<Rightarrow> (None, st)
     | Inr prepared \<Rightarrow>
         (let storableMessages = filter_not_null prepared;
              key = getStorageKey roomId
          in case budgetStep p c now st roomId storableMessages of
               (st1, finalMessages, jsonString) \<Rightarrow>
                 (case setItem p st1 key jsonString of
                    Inl e \<Rightarrow> (Some e, st1)
                  | Inr st2 \<Rightarrow> (None, st2))))"

text \<open>
  The claims speak of the persistable subset of a message list: the messages of type text,
  status or file, a file message reduced to its metadata. These definitions follow those
  words; \<open>saveRoomMessages\<close> is compared with them below.
\<close>

definition msg_type :: "json \<Rightarrow> json option" where
  "msg_type m = (case m of JObj kvs \<Rightarrow> map_of kvs ''type'' | _ \<Rightarrow> None)"

definition persistable :: "json \<Rightarrow> bool" where
  "persistable m =
     (msg_type m = Some (JStr ''text'') \<or> msg_type m = Some (JStr ''status'') \<or>
      msg_type m = Some (JStr ''file''))"

definition has_data :: "json \<Rightarrow> bool" where
  "has_data m = (case m of JObj kvs \<Rightarrow> map_of kvs ''data'' \<noteq> None | _ \<Rightarrow> False)"

definition file_payload_free :: "json \<Rightarrow> bool" where
  "file_payload_free m = (if msg_type m = Some (JStr ''file'') then \<not> has_data m else True)"

definition metadata_only :: "json \<Rightarrow> json" where
  "metadata_only m =
     (case m of
        JObj kvs \<Rightarrow>
          if map_of kvs ''type'' = Some (JStr ''file'')
          then JObj (AList.delete ''data'' kvs)
          else m
      | _ \<Rightarrow> m)"

definition persistable_subset :: "json list \<Rightarrow> json list" where
  "persistable_subset M = map metadata_only (filter persistable M)"

text \<open>The messages of a record as \<open>JSON.parse\<close> gives it back, when it is a record.\<close>

definition record_messages :: "json option \<Rightarrow> json list option" where
  "record_messages d =
     (case d of
        Some (JObj kvs) \<Rightarrow> (case map_of kvs ''messages'' of Some (JArr ms) \<Rightarrow> Some ms | _ \<Rightarrow> None)
      | _ \<Rightarrow> None)"




definition persisted_messages :: "platform \<Rightarrow> localStorage \<Rightarrow> string \<Rightarrow> json list option" where
  "persisted_messages p st roomId =
     (case getItem st (getStorageKey roomId) of
        None \<Rightarrow> None
      | Some s \<Rightarrow> record_messages (JSON_parse p s))"

section \<open>room.js and main.js: saving on an incoming message\<close>

text \<open>
  \<open>saveCurrentRoomMessages\<close> (room.js) wraps \<open>saveRoomMessages\<close> in a try block whose
  catch clause logs and returns: whatever was thrown, the caller sees a normal return.
\<close>

definition saveCurrentRoomMessages ::
  "platform \<Rightarrow> config \<Rightarrow> int \<Rightarrow> localStorage \<Rightarrow> string \<Rightarrow> json list \<Rightarrow> js_error option \<times> localStorage" where
  "saveCurrentRoomMessages p c now st roomId msgs =
     (case saveRoomMessages p c now st roomId msgs of
        (Some e, st1) \<Rightarrow> (None, st1)
      | (None, st1) \<Rightarrow> (None, st1))"

text \<open>
  The loop of the \<open>message\<close> handler (main.js) over \<open>ageDivider\<close> = 2, 4, ..., 128. It
  returns \<open>success\<close> and the store. \<open>cleanupExpiredData\<close> catches its own exceptions, so
  the handler's \<open>cleanupError\<close> clauses are never entered. The divider starts at 2 and
  doubles, so it is never 0.
\<close>

function ageLoop ::
  "platform \<Rightarrow> config \<Rightarrow> int \<Rightarrow> string \<Rightarrow> json list \<Rightarrow> nat \<Rightarrow> localStorage \<Rightarrow> bool \<times> localStorage" where
  "ageLoop p c now roomId msgs ageDivider st =
     (if ageDivider \<le> 128 \<and> 0 < ageDivider then
        (let maxAge = of_nat (STORAGE_MAX_AGE_DAYS c) / of_nat ageDivider;
             st1 = cleanupExpiredData p now maxAge st
         in case saveCurrentRoomMessages p c now st1 roomId msgs of
              (None, st2) \<Rightarrow> (True, st2)
            | (Some e, st2) \<Rightarrow> ageLoop p c now roomId msgs (ageDivider * 2) st2)
      else (False, st))"
  by pat_completeness auto
termination
  by (relation "measure (\<lambda>(p, c, now, roomId, msgs, ageDivider, st). 129 - ageDivider)") auto

record app =
  store :: localStorage
  currentRoomMessages :: "json list"
  existingRooms :: "string list"
  gaveUp :: bool

text \<open>
  The storage part of the \<open>message\<close> handler, for \<open>transport.currentRoom = roomId\<close>:
  the message is pushed, the room is saved, and a QuotaExceededError that reaches the
  handler starts the escalation. \<open>gaveUp\<close> records the final warning that every cleanup
  failed.
\<close>

definition onMessage :: "platform \<Rightarrow> config \<Rightarrow> int \<Rightarrow> string \<Rightarrow> json \<Rightarrow> app \<Rightarrow> app" where
  "onMessage p c now roomId m a =
    (let msgs = currentRoomMessages a @ [m];
         a1 = a\<lparr>currentRoomMessages := msgs\<rparr>
     in case saveCurrentRoomMessages p c now (store a) roomId msgs of
          (Some QuotaExceededError, st1) \<Rightarrow>
            (let st2 = cleanupNonExistentRooms (existingRooms a) roomId st1 in
             case saveCurrentRoomMessages p c now st2 roomId msgs of
               (None, st3) \<Rightarrow> a1\<lparr>store := st3\<rparr>
             | (Some e, st3) \<Rightarrow>
                 (case ageLoop p c now roomId msgs 2 st3 of
                    (success, st4) \<Rightarrow> a1\<lparr>store := st4, gaveUp := \<not> success\<rparr>))
        | (Some e, st1) \<Rightarrow> a1\<lparr>store := st1\<rparr>
        | (None, st1) \<Rightarrow> a1\<lparr>store := st1\<rparr>)"

section \<open>A reference browser for worked examples\<close>

text \<open>
  A compact JSON printer and a parser for its output (integers, and strings whose only
  escapes are the quote and the backslash), and a browser whose quota counts the UTF-16
  code units of keys and values. The examples below run on this platform; the general
  theorems hold for every platform.
\<close>

definition quote :: "string \<Rightarrow> string" where
  "quote s =
     CHR 0x22 #
     concat (map (\<lambda>c. if c = CHR 0x22 \<or> c = CHR 0x5C then [CHR 0x5C, c] else [c]) s) @
     [CHR 0x22]"

fun show_nat :: "nat \<Rightarrow> string" where
  "show_nat n =
     (if n < 10 then [''0123456789'' ! n]
      else show_nat (n div 10) @ [''0123456789'' ! (n mod 10)])"

declare show_nat.simps [simp del]

definition show_int :: "int \<Rightarrow> string" where
  "show_int i = (if i < 0 then CHR ''-'' # show_nat (nat (- i)) else show_nat (nat i))"

fun join :: "string list \<Rightarrow> string" where
  "join [] = []"
| "join [x] = x"
| "join (x # y # ys) = x @ CHR '','' # join (y # ys)"

fun stringify :: "json \<Rightarrow> string" where
  "stringify JNull = ''null''"
| "stringify (JBool b) = (if b then ''true'' else ''false'')"
| "stringify (JNum i) = show_int i"
| "stringify (JStr s) = quote s"
| "stringify (JArr xs) = CHR ''['' # join (map stringify xs) @ '']''"
| "stringify (JObj kvs) =
     CHR ''{'' # join (map (\<lambda>kv. quote (fst kv) @ CHR '':'' # stringify (snd kv)) kvs) @ ''}''"

fun parse_str :: "string \<Rightarrow> string \<Rightarrow> (string \<times> string) option" where
  "parse_str acc [] = None"
| "parse_str acc [c] = (if c = CHR 0x22 then Some (rev acc, []) else None)"
| "parse_str acc (c # d # cs) =
     (if c = CHR 0x22 then Some (rev acc, d # cs)
      else if c = CHR 0x5C then
        (if d = CHR 0x22 \<or> d = CHR 0x5C then parse_str (d # acc) cs else None)
      else parse_str (c # acc) (d # cs))"

definition digit_val :: "char \<Rightarrow> nat option" where
  "digit_val c = (if c \<in> set ''0123456789'' then Some (of_char c - 48) else None)"

fun parse_digits :: "nat \<Rightarrow> string \<Rightarrow> nat \<times> string" where
  "parse_digits acc [] = (acc, [])"
| "parse_digits acc (c # cs) =
     (case digit_val c of
        None \<Rightarrow> (acc, c # cs)
      | Some d \<Rightarrow> parse_digits (acc * 10 + d) cs)"

definition parse_nat :: "string \<Rightarrow> (nat \<times> string) option" where
  "parse_nat s =
     (case s of
        [] \<Rightarrow> None
      | c # cs \<Rightarrow> if digit_val c = None then None else Some (parse_digits 0 s))"

text \<open>The first argument bounds the nesting depth; the length of the text is enough.\<close>

fun parse_value :: "nat \<Rightarrow> string \<Rightarrow> (json \<times> string) option"
  and parse_elems :: "nat \<Rightarrow> string \<Rightarrow> (json list \<times> string) option"
  and parse_members :: "nat \<Rightarrow> string \<Rightarrow> ((string \<times> json) list \<times> string) option" where
  "parse_value 0 s = None"
| "parse_value (Suc n) [] = None"
| "parse_value (Suc n) (c # cs) =
     (if c = CHR ''n'' then (if take 3 cs = ''ull'' then Some (JNull, drop 3 cs) else None)
      else if c = CHR ''t'' then (if take 3 cs = ''rue'' then Some (JBool True, drop 3 cs) else None)
      else if c = CHR ''f'' then (if take 4 cs = ''alse'' then Some (JBool False, drop 4 cs) else None)
      else if c = CHR 0x22 then map_option (\<lambda>r. (JStr (fst r), snd r)) (parse_str [] cs)
      else if c = CHR ''['' then
        (if take 1 cs = '']'' then Some (JArr [], drop 1 cs)
         else map_option (\<lambda>r. (JArr (fst r), snd r)) (parse_elems n cs))
      else if c = CHR ''{'' then
        (if take 1 cs = ''}'' then Some (JObj [], drop 1 cs)
         else map_option (\<lambda>r. (JObj (fst r), snd r)) (parse_members n cs))
      else if c = CHR ''-'' then map_option (\<lambda>r. (JNum (- int (fst r)), snd r)) (parse_nat cs)
      else map_option (\<lambda>r. (JNum (int (fst r)), snd r)) (parse_nat (c # cs)))"
| "parse_elems 0 s = None"
| "parse_elems (Suc n) s =
     (case parse_value n s of
        None \<Rightarrow> None
      | Some (v, rest) \<Rightarrow>
          (if take 1 rest = '','' then
             map_option (\<lambda>r. (v # fst r, snd r)) (parse_elems n (drop 1 rest))
           else if take 1 rest = '']'' then Some ([v], drop 1 rest)
           else None))"
| "parse_members 0 s = None"
| "parse_members (Suc n) s =
     (if take 1 s = [CHR 0x22] then
        (case parse_str [] (drop 1 s) of
           None \<Rightarrow> None
         | Some (k, rest) \<Rightarrow>
             (if take 1 rest = '':'' then
                (case parse_value n (drop 1 rest) of
                   None \<Rightarrow> None
                 | Some (v, rest') \<Rightarrow>
                     (if take 1 rest' = '','' then
                        map_option (\<lambda>r. ((k, v) # fst r, snd r)) (parse_members n (drop 1 rest'))
                      else if take 1 rest' = ''}'' then Some ([(k, v)], drop 1 rest')
                      else None))
              else None))
      else None)"

definition json_parse :: "string \<Rightarrow> json option" where
  "json_parse s = (case parse_value (Suc (length s)) s of Some (v, []) \<Rightarrow> Some v | _ \<Rightarrow> None)"

definition stored_units :: "localStorage \<Rightarrow> nat" where
  "stored_units st = sum_list (map (\<lambda>(k, v). length k + length v) st)"

definition browser :: "nat \<Rightarrow> platform" where
  "browser quota =
     \<lparr> JSON_parse = json_parse,
       JSON_stringify = stringify,
       ToNumber = (\<lambda>v. None),
       setItem_accepts = (\<lambda>st k v. stored_units (AList.update k v st) \<le> quota) \<rparr>"

section \<open>transport.js\<close>

text \<open>
  Every WebSocket the transport has created is kept in \<open>sockets\<close>; its position is its
  identity, and \<open>lobbyWs\<close> and \<open>roomWs\<close> are references into that list (\<open>None\<close> is
  \<open>null\<close>). A socket remembers the \<open>roomId\<close> its handlers were created with and the
  frames handed to it. \<open>username\<close> is what \<open>getUsername()\<close> returns. A pending
  timeout is held only through \<open>_lobbyTimer\<close> or \<open>_roomTimer\<close>, so the field itself
  stands for it, with the delay and the \<open>roomId\<close> its callback captured. \<open>trace\<close> lists,
  oldest first, the events emitted to the handlers and the sockets created; the handlers
  registered in main.js do not call back into the transport.
\<close>

datatype scope = Lobby | Room

datatype ready_state = CONNECTING | OPEN | CLOSING | CLOSED

record socket =
  sock_scope :: scope
  sock_room :: string
  sock_state :: ready_state
  sent :: "json list"

record timer =
  timer_delay :: nat
  timer_room :: string

record close_event =
  ev_code :: nat
  ev_reason :: string

datatype event =
    RoomSwitch string
  | Opened string
  | Closed
  | ErrorEvent string string
  | SendFail
  | Connection scope string "nat option" "string option"

datatype effect = Emit event | NewWebSocket nat

record transport =
  username :: string
  sockets :: "socket list"
  lobbyWs :: "nat option"
  roomWs :: "nat option"
  currentRoom :: string
  lobbyRetry :: nat
  roomRetry :: nat
  lobbyTimer :: "timer option"
  roomTimer :: "timer option"
  roomManualClose :: bool
  trace :: "effect list"

definition RETRY_BASE_MS :: nat where
  "RETRY_BASE_MS = 1000"

definition RETRY_MAX_MS :: nat where
  "RETRY_MAX_MS = 8000"

definition new_Transport :: "string \<Rightarrow> transport" where
  "new_Transport u =
     \<lparr> username = u, sockets = [], lobbyWs = None, roomWs = None, currentRoom = [],
       lobbyRetry = RETRY_BASE_MS, roomRetry = RETRY_BASE_MS, lobbyTimer = None,
       roomTimer = None, roomManualClose = False, trace = [] \<rparr>"

text \<open>
  Modelled from the spec: \<open>wsOpen\<close> and \<open>wsSend\<close> of utils.js, which is not among
  the sources. A channel transmits if it is open: \<open>wsOpen\<close> holds of a socket that is
  there and in state OPEN (as \<open>isRoomOpen\<close> of room.js tests it; \<open>requestCreate\<close>
  waits for the open event of a socket of which \<open>wsOpen\<close> fails, so a connecting socket
  is not open), and \<open>wsSend\<close> hands the frame to such a socket and transmits nothing
  otherwise.
\<close>

definition wsOpen :: "transport \<Rightarrow> nat option \<Rightarrow> bool" where
  "wsOpen t ws =
     (case ws of
        None \<Rightarrow> False
      | Some i \<Rightarrow> i < length (sockets t) \<and> sock_state (sockets t ! i) = OPEN)"

definition wsSend :: "nat option \<Rightarrow> json \<Rightarrow> transport \<Rightarrow> transport" where
  "wsSend ws payload t =
     (case ws of
        None \<Rightarrow> t
      | Some i \<Rightarrow>
          if wsOpen t ws
          then t\<lparr>sockets := (sockets t)[i := (sockets t ! i)\<lparr>sent := sent (sockets t ! i) @ [payload]\<rparr>]\<rparr>
          else t)"

text \<open>\<open>WebSocket.close()\<close>: a connecting or open socket starts closing.\<close>

definition ws_close :: "nat \<Rightarrow> transport \<Rightarrow> transport" where
  "ws_close i t =
     (if i < length (sockets t) \<and>
         (sock_state (sockets t ! i) = CONNECTING \<or> sock_state (sockets t ! i) = OPEN)
      then t\<lparr>sockets := (sockets t)[i := (sockets t ! i)\<lparr>sock_state := CLOSING\<rparr>]\<rparr>
      else t)"

definition set_state :: "nat \<Rightarrow> ready_state \<Rightarrow> transport \<Rightarrow> transport" where
  "set_state i s t = t\<lparr>sockets := (sockets t)[i := (sockets t ! i)\<lparr>sock_state := s\<rparr>]\<rparr>"

definition emit :: "event \<Rightarrow> transport \<Rightarrow> transport" where
  "emit e t = t\<lparr>trace := trace t @ [Emit e]\<rparr>"

definition ws_of :: "scope \<Rightarrow> transport \<Rightarrow> nat option" where
  "ws_of sc t = (case sc of Lobby \<Rightarrow> lobbyWs t | Room \<Rightarrow> roomWs t)"

definition timer_of :: "scope \<Rightarrow> transport \<Rightarrow> timer option" where
  "timer_of sc t = (case sc of Lobby \<Rightarrow> lobbyTimer t | Room \<Rightarrow> roomTimer t)"

definition retry_of :: "scope \<Rightarrow> transport \<Rightarrow> nat" where
  "retry_of sc t = (case sc of Lobby \<Rightarrow> lobbyRetry t | Room \<Rightarrow> roomRetry t)"

definition setTimer :: "scope \<Rightarrow> timer option \<Rightarrow> transport \<Rightarrow> transport" where
  "setTimer sc tm t = (case sc of Lobby \<Rightarrow> t\<lparr>lobbyTimer := tm\<rparr> | Room \<Rightarrow> t\<lparr>roomTimer := tm\<rparr>)"

definition updateRetry :: "scope \<Rightarrow> nat \<Rightarrow> transport \<Rightarrow> transport" where
  "updateRetry sc r t = (case sc of Lobby \<Rightarrow> t\<lparr>lobbyRetry := r\<rparr> | Room \<Rightarrow> t\<lparr>roomRetry := r\<rparr>)"

definition clearTimer :: "scope \<Rightarrow> transport \<Rightarrow> transport" where
  "clearTimer sc t = (if timer_of sc t \<noteq> None then setTimer sc None t else t)"

definition openLobbySocket :: "transport \<Rightarrow> transport" where
  "openLobbySocket t =
     t\<lparr>sockets := sockets t @
          [\<lparr>sock_scope = Lobby, sock_room = [], sock_state = CONNECTING, sent = []\<rparr>],
       lobbyWs := Some (length (sockets t)),
       trace := trace t @ [NewWebSocket (length (sockets t))]\<rparr>"

definition openRoomSocket :: "string \<Rightarrow> transport \<Rightarrow> transport" where
  "openRoomSocket roomId t =
     t\<lparr>sockets := sockets t @
          [\<lparr>sock_scope = Room, sock_room = roomId, sock_state = CONNECTING, sent = []\<rparr>],
       roomWs := Some (length (sockets t)),
       trace := trace t @ [NewWebSocket (length (sockets t))]\<rparr>"

definition connectLobby :: "transport \<Rightarrow> transport" where
  "connectLobby t =
     (if wsOpen t (lobbyWs t) then t else openLobbySocket (clearTimer Lobby t))"

definition connectRoom :: "string \<Rightarrow> transport \<Rightarrow> transport" where
  "connectRoom roomId t =
     (if username t = [] then t
      else if wsOpen t (roomWs t) then
        (if currentRoom t = roomId then t
         else (ws_close (the (roomWs t)) (t\<lparr>roomManualClose := True\<rparr>))\<lparr>currentRoom := roomId\<rparr>)
      else openRoomSocket roomId
             (clearTimer Room (emit (RoomSwitch roomId) (t\<lparr>currentRoom := roomId\<rparr>))))"

definition joinRoom :: "string \<Rightarrow> transport \<Rightarrow> transport" where
  "joinRoom roomId t = (if roomId = [] then t else connectRoom roomId t)"

definition send :: "json \<Rightarrow> transport \<Rightarrow> transport" where
  "send payload t =
     (if wsOpen t (roomWs t) then wsSend (roomWs t) payload t else emit SendFail t)"

text \<open>
  \<open>_scheduleReconnect(type, roomId)\<close>; for the lobby \<open>roomId\<close> is undefined, here the
  empty string, which is falsy too.
\<close>

definition scheduleReconnect :: "scope \<Rightarrow> string \<Rightarrow> transport \<Rightarrow> transport" where
  "scheduleReconnect sc roomId t =
     (let isLobby = (sc = Lobby);
          ws = ws_of sc t;
          timer = timer_of sc t;
          retry = retry_of sc t
      in if timer \<noteq> None \<or> wsOpen t ws \<or> (\<not> isLobby \<and> roomId = []) then t
         else setTimer sc (Some \<lparr>timer_delay = retry, timer_room = roomId\<rparr>)
                (emit (Connection sc ''reconnecting'' (Some retry)
                         (if roomId \<noteq> [] then Some roomId else None)) t))"

text \<open>The callback of the timeout set by \<open>_scheduleReconnect\<close>, when it fires.\<close>

definition timerFires :: "scope \<Rightarrow> transport \<Rightarrow> transport" where
  "timerFires sc t =
     (case timer_of sc t of
        None \<Rightarrow> t
      | Some tm \<Rightarrow>
          (let t1 = setTimer sc None t;
               t2 = updateRetry sc (min (timer_delay tm * 2) RETRY_MAX_MS) t1
           in if sc = Lobby then openLobbySocket t2
              else if username t2 \<noteq> [] then openRoomSocket (timer_room tm) t2
              else t2))"

text \<open>The listeners that \<open>_openLobbySocket\<close> and \<open>_openRoomSocket\<close> attach to socket \<open>i\<close>.\<close>

definition lobbyOpen :: "nat \<Rightarrow> transport \<Rightarrow> transport" where
  "lobbyOpen i t =
     emit (Connection Lobby ''connected'' None None)
       ((set_state i OPEN t)\<lparr>lobbyRetry := RETRY_BASE_MS\<rparr>)"

definition lobbyClose :: "nat \<Rightarrow> transport \<Rightarrow> transport" where
  "lobbyClose i t = scheduleReconnect Lobby [] ((set_state i CLOSED t)\<lparr>lobbyWs := None\<rparr>)"

definition roomOpen :: "nat \<Rightarrow> transport \<Rightarrow> transport" where
  "roomOpen i t =
     (let roomId = sock_room (sockets t ! i);
          t1 = (set_state i OPEN t)\<lparr>roomRetry := RETRY_BASE_MS\<rparr>
      in if username t1 \<noteq> [] then
           emit (Connection Room ''connected'' None (Some roomId))
             (emit (Opened roomId)
                (wsSend (roomWs t1) (JObj [(''username'', JStr (username t1))]) t1))
         else (case roomWs t1 of None \<Rightarrow> t1 | Some j \<Rightarrow> ws_close j t1))"

definition closeCodeEvents :: "close_event \<Rightarrow> effect list" where
  "closeCodeEvents ev =
     (if ev_code ev = 1008 then [Emit (ErrorEvent ''ws_closed_1008'' (ev_reason ev))]
      else if ev_code ev = 1009 then [Emit (ErrorEvent ''ws_closed_1009'' (ev_reason ev))]
      else [])"

definition roomClose :: "nat \<Rightarrow> close_event \<Rightarrow> transport \<Rightarrow> transport" where
  "roomClose i ev t =
     (let t1 = emit Closed ((set_state i CLOSED t)\<lparr>roomWs := None\<rparr>);
          t2 = t1\<lparr>trace := trace t1 @ closeCodeEvents ev\<rparr>;
          manual = roomManualClose t2;
          t3 = t2\<lparr>roomManualClose := False\<rparr>
      in if manual \<and> currentRoom t3 \<noteq> [] then
           openRoomSocket (currentRoom t3)
             (clearTimer Room (emit (RoomSwitch (currentRoom t3)) t3))
         else
           (let shouldRetry = (\<not> manual \<and> (ev_code ev \<noteq> 1008 \<and> ev_code ev \<noteq> 1009))
            in if shouldRetry \<and> currentRoom t3 \<noteq> []
               then scheduleReconnect Room (currentRoom t3) t3
               else t3))"

text \<open>
  What can happen to a transport: calls of its methods, and the browser delivering an
  open event to a connecting socket, a close event to a socket that is not closed yet, or
  a due timeout.
\<close>

datatype action =
    ConnectLobby
  | ConnectRoom string
  | JoinRoom string
  | Send json
  | SocketOpens nat
  | SocketCloses nat close_event
  | TimerFires scope

definition step :: "action \<Rightarrow> transport \<Rightarrow> transport" where
  "step a t =
     (case a of
        ConnectLobby \<Rightarrow> connectLobby t
      | ConnectRoom roomId \<Rightarrow> connectRoom roomId t
      | JoinRoom roomId \<Rightarrow> joinRoom roomId t
      | Send payload \<Rightarrow> send payload t
      | SocketOpens i \<Rightarrow>
          if i < length (sockets t) \<and> sock_state (sockets t ! i) = CONNECTING
          then (case sock_scope (sockets t ! i) of Lobby \<Rightarrow> lobbyOpen i t | Room \<Rightarrow> roomOpen i t)
          else t
      | SocketCloses i ev \<Rightarrow>
          if i < length (sockets t) \<and> sock_state (sockets t ! i) \<noteq> CLOSED
          then (case sock_scope (sockets t ! i) of Lobby \<Rightarrow> lobbyClose i t | Room \<Rightarrow> roomClose i ev t)
          else t
      | TimerFires sc \<Rightarrow> timerFires sc t)"

definition run :: "action list \<Rightarrow> transport \<Rightarrow> transport" where
  "run as t = fold step as t"



section \<open>sender.js: sendText\<close>



text \<open>
  \<open>String.prototype.trim\<close> on a text held as its well-formed UTF-8 bytes. It removes,
  at both ends, every white space and line terminator of ECMAScript: TAB, LF, VT, FF, CR,
  SP, U+00A0, U+1680, U+2000 to U+200A, U+2028, U+2029, U+202F, U+205F, U+3000 and U+FEFF.
  \<open>WHITE_SPACE\<close> lists their encodings. Each starts with a byte that starts a character,
  so one of them at the end of a well-formed text is a whole character there.
\<close>

definition WHITE_SPACE :: "string list" where
  "WHITE_SPACE =
     [[CHR 0x09], [CHR 0x0A], [CHR 0x0B], [CHR 0x0C], [CHR 0x0D], [CHR 0x20],
      [CHR 0xC2, CHR 0xA0],
      [CHR 0xE1, CHR 0x9A, CHR 0x80],
      [CHR 0xE2, CHR 0x80, CHR 0x80], [CHR 0xE2, CHR 0x80, CHR 0x81],
      [CHR 0xE2, CHR 0x80, CHR 0x82], [CHR 0xE2, CHR 0x80, CHR 0x83],
      [CHR 0xE2, CHR 0x80, CHR 0x84], [CHR 0xE2, CHR 0x80, CHR 0x85],
      [CHR 0xE2, CHR 0x80, CHR 0x86], [CHR 0xE2, CHR 0x80, CHR 0x87],
      [CHR 0xE2, CHR 0x80, CHR 0x88], [CHR 0xE2, CHR 0x80, CHR 0x89],
      [CHR 0xE2, CHR 0x80, CHR 0x8A],
      [CHR 0xE2, CHR 0x80, CHR 0xA8], [CHR 0xE2, CHR 0x80, CHR 0xA9],
      [CHR 0xE2, CHR 0x80, CHR 0xAF],
      [CHR 0xE2, CHR 0x81, CHR 0x9F],
      [CHR 0xE3, CHR 0x80, CHR 0x80],
      [CHR 0xEF, CHR 0xBB, CHR 0xBF]]"

text \<open>\<open>strip ws s\<close> removes from the front of \<open>s\<close> every leading occurrence of a member of \<open>ws\<close>.\<close>

function strip :: "string list \<Rightarrow> string \<Rightarrow> string" where
  "strip ws s =
     (case find (\<lambda>w. w \<noteq> [] \<and> prefix w s) ws of
        None \<Rightarrow> s
      | Some w \<Rightarrow> strip ws (drop (length w) s))"
  by pat_completeness auto
termination
proof (relation "measure (\<lambda>(ws, s). length s)")
  show "wf (measure (\<lambda>(ws, s). length s))"
    by simp
next
  fix ws :: "string list" and s w :: string
  assume "find (\<lambda>w. w \<noteq> [] \<and> prefix w s) ws = Some w"
  then have "w \<noteq> []" and "prefix w s"
    by (auto simp: find_Some_iff)
  then have "s \<noteq> []" and "0 < length w"
    by auto
  then show "((ws, drop (length w) s), (ws, s)) \<in> measure (\<lambda>(ws, s). length s)"
    by simp
qed

declare strip.simps [simp del]

definition js_trim :: "string \<Rightarrow> string" where
  "js_trim s = rev (strip (map rev WHITE_SPACE) (rev (strip WHITE_SPACE s)))"




section \<open>Worked examples\<close>

text \<open>Messages and configurations used in the worked examples.\<close>

definition text_msg :: "string \<Rightarrow> json" where
  "text_msg s = JObj [(''type'', JStr ''text''), (''text'', JStr s)]"

definition file_msg :: json where
  "file_msg =
     JObj [(''type'', JStr ''file''), (''name'', JStr ''a.txt''), (''mime'', JStr ''text/plain''),
           (''size'', JNum 3), (''data'', JStr ''data:text/plain;base64,YWJj'')]"

definition users_msg :: json where
  "users_msg = JObj [(''type'', JStr ''rename''), (''username'', JStr ''bob'')]"

definition small_window_config :: config where
  "small_window_config =
     applyServerConfig
       \<lparr> maxMessageBytes = None, maxMessages = Some 10, storageMaxBytes = None,
         storageMaxAgeDays = None \<rparr>
       default_config"

definition eleven_texts :: "json list" where
  "eleven_texts =
     map text_msg [''m01'', ''m02'', ''m03'', ''m04'', ''m05'', ''m06'', ''m07'', ''m08'', ''m09'', ''m10'', ''m11'']"

definition example_msgs :: "json list" where
  "example_msgs = [text_msg ''hi'', users_msg, file_msg]"

definition saved_once :: localStorage where
  "saved_once =
     snd (saveRoomMessages (browser 100000) default_config 1700000000000 [] ''lobby'' example_msgs)"

definition saved_twice :: localStorage where
  "saved_twice =
     snd (saveRoomMessages (browser 100000) default_config 1700000000500 saved_once ''lobby'' example_msgs)"

definition big_string :: string where
  "big_string = replicate 3000000 CHR ''a''"

definition big_msgs :: "json list" where
  "big_msgs = [text_msg big_string, text_msg big_string]"

definition big_once :: localStorage where
  "big_once =
     snd (saveRoomMessages (browser 10000000) default_config 1700000000000 [] ''lobby'' big_msgs)"

definition big_twice :: localStorage where
  "big_twice =
     snd (saveRoomMessages (browser 10000000) default_config 1700000000500 big_once ''lobby'' big_msgs)"

definition stale_store :: localStorage where
  "stale_store =
     [(getStorageKey ''gone'', stringify (roomRecord ''gone'' [text_msg ''old''] 1699999000000))]"

definition full_app :: app where
  "full_app =
     \<lparr> store = stale_store, currentRoomMessages = [], existingRooms = [''lobby''], gaveUp = False \<rparr>"

definition policy_close :: close_event where
  "policy_close = \<lparr> ev_code = 1008, ev_reason = ''bad username'' \<rparr>"

definition room_a_open :: transport where
  "room_a_open = run [ConnectRoom ''a'', SocketOpens 0] (new_Transport ''alice'')"

definition normal_close :: close_event where
  "normal_close = \<lparr> ev_code = 1000, ev_reason = [] \<rparr>"

definition abnormal_close :: close_event where
  "abnormal_close = \<lparr> ev_code = 1006, ev_reason = [] \<rparr>"


definition switch_race_pre :: transport where
  "switch_race_pre =
     run [ConnectRoom ''a'', ConnectRoom ''b'', SocketOpens 1] (new_Transport ''alice'')"

definition switch_race_run :: transport where
  "switch_race_run =
     run [SocketCloses 0 abnormal_close, SocketCloses 1 normal_close]
       (connectRoom ''c'' switch_race_pre)"




definition replaced_socket_run :: transport where
  "replaced_socket_run =
     run [ConnectRoom ''a'', ConnectRoom ''b'', SocketOpens 0] (new_Transport ''alice'')"



section \<open>Properties of the cache\<close>

lemma MAX_MESSAGES_default: "MAX_MESSAGES default_config = 100"
  by (simp add: default_config_def)

lemma MAX_MESSAGES_applyServerConfig:
  "10 \<le> MAX_MESSAGES c \<Longrightarrow> MAX_MESSAGES c \<le> 1000 \<Longrightarrow>
     10 \<le> MAX_MESSAGES (applyServerConfig cfg c) \<and> MAX_MESSAGES (applyServerConfig cfg c) \<le> 1000"
  by (auto simp: applyServerConfig_def Let_def split: option.splits)

lemma slice_neg_suffix: "suffix (slice_neg n xs) xs"
  by (simp add: slice_neg_def suffix_drop)

lemma slice_neg_length: "0 < n \<Longrightarrow> length (slice_neg n xs) \<le> n"
  by (simp add: slice_neg_def)

lemma prepare_Inr:
  "m \<noteq> JNull \<Longrightarrow>
     prepareMessageForStorage m = Inr (if persistable m then Some (metadata_only m) else None)"
  by (cases m) (auto simp: persistable_def msg_type_def metadata_only_def)

lemma map_prepare_persistable:
  "JNull \<notin> set M \<Longrightarrow>
     \<exists>rs. map_prepare M = Inr rs \<and> filter_not_null rs = persistable_subset M"
proof (induction M)
  case Nil
  then show ?case by (simp add: persistable_subset_def)
next
  case (Cons m M)
  then obtain rs where rs: "map_prepare M = Inr rs" "filter_not_null rs = persistable_subset M"
    by auto
  from Cons.prems have "m \<noteq> JNull" by auto
  then show ?case
    using rs by (simp add: prepare_Inr persistable_subset_def)
qed

lemma map_prepare_null: "JNull \<in> set M \<Longrightarrow> \<exists>e. map_prepare M = Inl e"
  by (induction M) (auto split: sum.splits)

lemma persistable_metadata_only: "persistable m \<Longrightarrow> persistable (metadata_only m)"
  by (cases m) (auto simp: persistable_def msg_type_def metadata_only_def delete_conv)

lemma payload_free_metadata_only: "file_payload_free (metadata_only m)"
  by (cases m) (auto simp: file_payload_free_def has_data_def msg_type_def metadata_only_def delete_conv)

lemma persistable_subset_all:
  "list_all persistable (persistable_subset M) \<and> list_all file_payload_free (persistable_subset M)"
  by (induction M) (auto simp: persistable_subset_def persistable_metadata_only payload_free_metadata_only)

lemma budgetStep_result:
  "budgetStep p c now st r S = (st1, fin, js) \<Longrightarrow>
     suffix fin S \<and> js = JSON_stringify p (roomRecord r fin now) \<and> length S div 2 \<le> length fin"
  by (auto simp: budgetStep_def Let_def slice_neg_def suffix_drop split: if_splits)

lemma budgetStep_fits:
  "getStorageUsage st + length (JSON_stringify p (roomRecord r S now)) * 2 \<le> STORAGE_MAX_BYTES c \<Longrightarrow>
     budgetStep p c now st r S = (st, S, JSON_stringify p (roomRecord r S now))"
  by (simp add: budgetStep_def Let_def)

lemma getItem_update: "getItem (AList.update k v st) k = Some v"
  by (simp add: getItem_def update_conv')

lemma save_written:
  assumes "JNull \<notin> set M" and "saveRoomMessages p c now st r M = (None, st')"
  shows "\<exists>fin. getItem st' (getStorageKey r) = Some (JSON_stringify p (roomRecord r fin now)) \<and>
           suffix fin (persistable_subset M) \<and>
           length (persistable_subset M) div 2 \<le> length fin \<and>
           (getStorageUsage st + length (JSON_stringify p (roomRecord r (persistable_subset M) now)) * 2
              \<le> STORAGE_MAX_BYTES c \<longrightarrow> fin = persistable_subset M)"
proof -
  from assms(1) obtain rs where rs: "map_prepare M = Inr rs" "filter_not_null rs = persistable_subset M"
    using map_prepare_persistable by blast
  obtain st1 fin js where b: "budgetStep p c now st r (persistable_subset M) = (st1, fin, js)"
    by (cases "budgetStep p c now st r (persistable_subset M)") auto
  from assms(2) rs b have w: "setItem p st1 (getStorageKey r) js = Inr st'"
    by (auto simp: saveRoomMessages_def Let_def split: sum.splits)
  then have "st' = AList.update (getStorageKey r) js st1"
    by (auto simp: setItem_def split: if_splits)
  then have g: "getItem st' (getStorageKey r) = Some js"
    by (simp add: getItem_update)
  from b have r: "suffix fin (persistable_subset M)" "js = JSON_stringify p (roomRecord r fin now)"
      "length (persistable_subset M) div 2 \<le> length fin"
    using budgetStep_result by blast+
  have "getStorageUsage st + length (JSON_stringify p (roomRecord r (persistable_subset M) now)) * 2
              \<le> STORAGE_MAX_BYTES c \<longrightarrow> fin = persistable_subset M"
    using b budgetStep_fits by fastforce
  with g r show ?thesis by blast
qed

lemma load_record:
  assumes "getItem st (getStorageKey r) = Some s" and "s \<noteq> []"
    and "JSON_parse p s = Some (roomRecord r' ms now)"
  shows "loadRoomMessages p c st r =
           (JArr (if MAX_MESSAGES c < length ms then slice_neg (MAX_MESSAGES c) ms else ms), st)"
  using assms
  by (simp add: loadRoomMessages_def roomRecord_def truthy_opt_def STORAGE_VERSION_def
      to_number_def Let_def)

text \<open>
  Claim C1. When \<open>saveRoomMessages(r, M)\<close> has written its record and nothing else
  touches the store, \<open>loadRoomMessages(r)\<close> returns an array \<open>ms\<close> that is a suffix,
  hence an in-order subsequence made of the most recent entries, of the persistable subset
  \<open>S\<close> of \<open>M\<close> (the messages of type text, status or file, file messages without their
  \<open>data\<close> field). It has at most \<open>MAX_MESSAGES\<close> entries and at least as many as the
  smaller of \<open>MAX_MESSAGES\<close> and half the length of \<open>S\<close>; when the size estimate of
  the save was within \<open>STORAGE_MAX_BYTES\<close> it is exactly the last \<open>MAX_MESSAGES\<close>
  entries of \<open>S\<close> (all of \<open>S\<close> when there are no more). Every entry is of one of the
  three types, and no file entry carries a \<open>data\<close> field. The store is left as it was.
  The hypotheses say that the messages are not \<open>null\<close>, that the configured window is
  positive (config.js keeps it between 10 and 1000), that the write was accepted, and that
  \<open>JSON.stringify\<close> prints the records as non-empty texts which \<open>JSON.parse\<close> gives
  back.
\<close>

theorem cache_round_trip:
  assumes "JNull \<notin> set M"
    and "0 < MAX_MESSAGES c"
    and "saveRoomMessages p c now st r M = (None, st')"
    and "\<forall>ms. suffix ms (persistable_subset M) \<longrightarrow>
           JSON_stringify p (roomRecord r ms now) \<noteq> [] \<and>
           JSON_parse p (JSON_stringify p (roomRecord r ms now)) = Some (roomRecord r ms now)"
  shows "\<exists>ms. loadRoomMessages p c st' r = (JArr ms, st') \<and>
           suffix ms (persistable_subset M) \<and>
           length ms \<le> MAX_MESSAGES c \<and>
           min (length (persistable_subset M) div 2) (MAX_MESSAGES c) \<le> length ms \<and>
           (getStorageUsage st + length (JSON_stringify p (roomRecord r (persistable_subset M) now)) * 2
              \<le> STORAGE_MAX_BYTES c \<longrightarrow>
            ms = drop (length (persistable_subset M) - MAX_MESSAGES c) (persistable_subset M)) \<and>
           list_all persistable ms \<and>
           list_all file_payload_free ms"
proof -
  let ?S = "persistable_subset M" and ?n = "MAX_MESSAGES c"
  from save_written [OF assms(1) assms(3)] obtain fin where
    g: "getItem st' (getStorageKey r) = Some (JSON_stringify p (roomRecord r fin now))" and
    s: "suffix fin ?S" and
    h: "length ?S div 2 \<le> length fin" and
    f: "getStorageUsage st + length (JSON_stringify p (roomRecord r ?S now)) * 2
          \<le> STORAGE_MAX_BYTES c \<longrightarrow> fin = ?S"
    by blast
  from s assms(4) have ne: "JSON_stringify p (roomRecord r fin now) \<noteq> []"
    and rt: "JSON_parse p (JSON_stringify p (roomRecord r fin now)) = Some (roomRecord r fin now)"
    by blast+
  define ms where "ms = (if ?n < length fin then slice_neg ?n fin else fin)"
  from load_record [OF g ne rt] have l: "loadRoomMessages p c st' r = (JArr ms, st')"
    by (simp add: ms_def)
  have "suffix ms fin"
    by (simp add: ms_def slice_neg_suffix)
  from this s have sr: "suffix ms ?S"
    by (rule suffix_order.trans)
  from assms(2) have len: "length ms = min (length fin) ?n"
    by (simp add: ms_def slice_neg_def)
  with h have lo: "min (length ?S div 2) ?n \<le> length ms" and hi: "length ms \<le> ?n"
    by simp_all
  from assms(2) have "fin = ?S \<Longrightarrow> ms = drop (length ?S - ?n) ?S"
    by (simp add: ms_def slice_neg_def)
  with f have ex: "getStorageUsage st + length (JSON_stringify p (roomRecord r ?S now)) * 2
      \<le> STORAGE_MAX_BYTES c \<longrightarrow> ms = drop (length ?S - ?n) ?S"
    by blast
  from sr have "set ms \<subseteq> set ?S"
    by (rule set_mono_suffix)
  with persistable_subset_all [of M] have "list_all persistable ms" "list_all file_payload_free ms"
    by (auto simp: list_all_iff)
  with l sr hi lo ex show ?thesis
    by blast
qed

lemmas example_simps = saveRoomMessages_def browser_def default_config_def text_msg_def users_msg_def
    file_msg_def budgetStep_def getStorageUsage_def roomRecord_def STORAGE_VERSION_def
    quote_def show_int_def show_nat.simps setItem_def stored_units_def getStorageKey_def STORAGE_PREFIX_def
    small_window_config_def applyServerConfig_def persisted_messages_def getItem_def json_parse_def
    parse_nat_def digit_val_def record_messages_def loadRoomMessages_def truthy_opt_def to_number_def
    slice_neg_def

theorem cache_round_trip_witness:
  "loadRoomMessages (browser 100000) default_config saved_once ''lobby'' =
     (JArr [text_msg ''hi'', metadata_only file_msg], saved_once)"
proof -
  let ?p = "browser 100000"
  let ?s = "saveRoomMessages ?p default_config 1700000000000 [] ''lobby'' example_msgs"
  have a: "JNull \<notin> set example_msgs"
    by (simp add: example_msgs_def text_msg_def users_msg_def file_msg_def)
  have b: "0 < MAX_MESSAGES default_config"
    by (simp add: default_config_def)
  have "fst ?s = None"
    by (simp add: example_msgs_def example_simps)
  then have c: "?s = (None, saved_once)"
    by (simp add: prod_eq_iff saved_once_def)
  have ps: "persistable_subset example_msgs = [text_msg ''hi'', metadata_only file_msg]"
    by (simp add: example_msgs_def persistable_subset_def persistable_def msg_type_def text_msg_def
        users_msg_def file_msg_def metadata_only_def)
  have d: "\<forall>ms. suffix ms (persistable_subset example_msgs) \<longrightarrow>
             JSON_stringify ?p (roomRecord ''lobby'' ms 1700000000000) \<noteq> [] \<and>
             JSON_parse ?p (JSON_stringify ?p (roomRecord ''lobby'' ms 1700000000000)) =
             Some (roomRecord ''lobby'' ms 1700000000000)"
    unfolding ps by (auto simp: suffix_Cons metadata_only_def example_simps)
  have e: "getStorageUsage [] +
      length (JSON_stringify ?p (roomRecord ''lobby'' (persistable_subset example_msgs) 1700000000000)) * 2
      \<le> STORAGE_MAX_BYTES default_config"
    unfolding ps by (simp add: metadata_only_def example_simps)
  from cache_round_trip [OF a b c d] e obtain ms where
    "loadRoomMessages ?p default_config saved_once ''lobby'' = (JArr ms, saved_once)"
    "ms = drop (length (persistable_subset example_msgs) - MAX_MESSAGES default_config)
            (persistable_subset example_msgs)"
    by blast
  then show ?thesis
    by (simp add: ps default_config_def)
qed




lemma distinct_removeItem: "distinct (map fst st) \<Longrightarrow> distinct (map fst (removeItem st k))"
  by (simp add: removeItem_def distinct_delete)

lemma distinct_fold_removeItem:
  "distinct (map fst st) \<Longrightarrow> distinct (map fst (fold (\<lambda>key s. removeItem s key) ks st))"
  by (induction ks arbitrary: st) (simp_all add: distinct_removeItem)

lemma distinct_cleanupExpiredData:
  "distinct (map fst st) \<Longrightarrow> distinct (map fst (cleanupExpiredData p now maxAge st))"
  by (simp add: cleanupExpiredData_def distinct_fold_removeItem)

lemma distinct_budgetStep:
  "distinct (map fst st) \<Longrightarrow> budgetStep p c now st r S = (st1, fin, js) \<Longrightarrow> distinct (map fst st1)"
  by (auto simp: budgetStep_def Let_def distinct_cleanupExpiredData split: if_splits)

lemma distinct_saveRoomMessages:
  assumes "distinct (map fst st)" and "saveRoomMessages p c now st r M = (e, st')"
  shows "distinct (map fst st')"
proof (cases "map_prepare M")
  case (Inl a)
  with assms show ?thesis by (simp add: saveRoomMessages_def)
next
  case (Inr rs)
  obtain st1 fin js where b: "budgetStep p c now st r (filter_not_null rs) = (st1, fin, js)"
    by (cases "budgetStep p c now st r (filter_not_null rs)") auto
  with assms(1) have d: "distinct (map fst st1)"
    by (rule distinct_budgetStep)
  with assms(2) Inr b show ?thesis
    by (auto simp: saveRoomMessages_def Let_def setItem_def distinct_update split: if_splits)
qed

lemma filter_key_distinct:
  "distinct (map fst al) \<Longrightarrow> map_of al k = Some v \<Longrightarrow> filter (\<lambda>kv. fst kv = k) al = [(k, v)]"
proof (induction al)
  case Nil
  then show ?case by simp
next
  case (Cons a al)
  show ?case
  proof (cases "fst a = k")
    case True
    with Cons.prems have "a = (k, v)" by (cases a) auto
    moreover from True Cons.prems(1) have "k \<notin> fst ` set al"
      by auto
    then have "filter (\<lambda>kv. fst kv = k) al = []"
      by (induction al) auto
    ultimately show ?thesis by simp
  next
    case False
    with Cons show ?thesis by (cases a) auto
  qed
qed

lemma getStorageUsage_update:
  "getStorageUsage (AList.update k v st) \<le> getStorageUsage st + length v * 2"
  by (induction st) (auto simp: getStorageUsage_def)

text \<open>
  Claim C4, amended. \<open>saveRoomMessages\<close> never trims to \<open>MAX_MESSAGES\<close>. When its write
  is accepted, the record under the room's key holds a suffix of the persistable subset of
  the messages (status, text, and file reduced to metadata), at least the most recent half
  of it, and all of it when the size estimate is within \<open>STORAGE_MAX_BYTES\<close>.
\<close>

theorem save_persists_suffix:
  assumes "JNull \<notin> set M" and "saveRoomMessages p c now st r M = (None, st')"
  shows "\<exists>fin. getItem st' (getStorageKey r) = Some (JSON_stringify p (roomRecord r fin now)) \<and>
           suffix fin (persistable_subset M) \<and>
           length (persistable_subset M) div 2 \<le> length fin \<and>
           (getStorageUsage st + length (JSON_stringify p (roomRecord r (persistable_subset M) now)) * 2
              \<le> STORAGE_MAX_BYTES c \<longrightarrow> fin = persistable_subset M)"
  using assms by (rule save_written)

theorem save_persists_suffix_witness:
  "\<exists>fin. getItem (snd (saveRoomMessages (browser 100000) default_config 1700000000000 [] ''lobby''
                         [text_msg ''hi'', users_msg, file_msg]))
            (getStorageKey ''lobby'') =
          Some (JSON_stringify (browser 100000) (roomRecord ''lobby'' fin 1700000000000)) \<and>
          suffix fin (persistable_subset [text_msg ''hi'', users_msg, file_msg]) \<and>
          length (persistable_subset [text_msg ''hi'', users_msg, file_msg]) div 2 \<le> length fin \<and>
          (getStorageUsage [] +
             length (JSON_stringify (browser 100000)
                       (roomRecord ''lobby'' (persistable_subset [text_msg ''hi'', users_msg, file_msg])
                          1700000000000)) * 2
             \<le> STORAGE_MAX_BYTES default_config \<longrightarrow>
           fin = persistable_subset [text_msg ''hi'', users_msg, file_msg])"
proof -
  let ?M = "[text_msg ''hi'', users_msg, file_msg]"
  let ?s = "saveRoomMessages (browser 100000) default_config 1700000000000 [] ''lobby'' ?M"
  have a: "JNull \<notin> set ?M"
    by (simp add: text_msg_def users_msg_def file_msg_def)
  have "fst ?s = None"
    by (simp add: example_simps)
  then have c: "?s = (None, snd ?s)"
    by (simp add: prod_eq_iff)
  show ?thesis
    using save_persists_suffix [OF a c] .
qed

theorem save_no_trim_counterexample:
  "MAX_MESSAGES small_window_config = 10 \<and>
   length eleven_texts = 11 \<and>
   saveRoomMessages (browser 100000) small_window_config 1700000000000 [] ''lobby'' eleven_texts =
     (None, [(getStorageKey ''lobby'', stringify (roomRecord ''lobby'' eleven_texts 1700000000000))]) \<and>
   persisted_messages (browser 100000)
     (snd (saveRoomMessages (browser 100000) small_window_config 1700000000000 [] ''lobby'' eleven_texts))
     ''lobby'' = Some eleven_texts"
proof (intro conjI)
  show "MAX_MESSAGES small_window_config = 10"
    by (simp add: small_window_config_def applyServerConfig_def default_config_def)
  show "length eleven_texts = 11"
    by (simp add: eleven_texts_def)
  show "saveRoomMessages (browser 100000) small_window_config 1700000000000 [] ''lobby'' eleven_texts =
     (None, [(getStorageKey ''lobby'', stringify (roomRecord ''lobby'' eleven_texts 1700000000000))])"
    by (simp add: eleven_texts_def example_simps)
  show "persisted_messages (browser 100000)
     (snd (saveRoomMessages (browser 100000) small_window_config 1700000000000 [] ''lobby'' eleven_texts))
     ''lobby'' = Some eleven_texts"
    by (simp add: eleven_texts_def example_simps)
qed

text \<open>
  Claim C9, amended. Two saves of the same list in a row, both accepted, leave exactly one
  record under the room's key; its messages are a suffix of the persistable subset of the
  list, so no entry is duplicated. The total usage is within \<open>STORAGE_MAX_BYTES\<close> when
  the second save's size estimate (usage before the write plus the new record) is.
\<close>

theorem save_twice:
  assumes "distinct (map fst st)" and "JNull \<notin> set M"
    and "saveRoomMessages p c now1 st r M = (None, st1)"
    and "saveRoomMessages p c now2 st1 r M = (None, st2)"
  shows "\<exists>fin. filter (\<lambda>kv. fst kv = getStorageKey r) st2 =
                  [(getStorageKey r, JSON_stringify p (roomRecord r fin now2))] \<and>
           suffix fin (persistable_subset M) \<and>
           (getStorageUsage st1 + length (JSON_stringify p (roomRecord r (persistable_subset M) now2)) * 2
              \<le> STORAGE_MAX_BYTES c \<longrightarrow>
            fin = persistable_subset M \<and> getStorageUsage st2 \<le> STORAGE_MAX_BYTES c)"
proof -
  let ?S = "persistable_subset M" and ?k = "getStorageKey r"
  from assms(1,3) have d1: "distinct (map fst st1)"
    by (rule distinct_saveRoomMessages)
  from d1 assms(4) have d2: "distinct (map fst st2)"
    by (rule distinct_saveRoomMessages)
  from save_written [OF assms(2) assms(4)] obtain fin where
    g: "getItem st2 ?k = Some (JSON_stringify p (roomRecord r fin now2))" and
    s: "suffix fin ?S" and
    f: "getStorageUsage st1 + length (JSON_stringify p (roomRecord r ?S now2)) * 2
          \<le> STORAGE_MAX_BYTES c \<longrightarrow> fin = ?S"
    by blast
  from d2 g have one: "filter (\<lambda>kv. fst kv = ?k) st2 = [(?k, JSON_stringify p (roomRecord r fin now2))]"
    by (simp add: getItem_def filter_key_distinct)
  have "getStorageUsage st2 \<le> STORAGE_MAX_BYTES c"
    if fits: "getStorageUsage st1 + length (JSON_stringify p (roomRecord r ?S now2)) * 2
          \<le> STORAGE_MAX_BYTES c"
  proof -
    from assms(2) obtain rs where rs: "map_prepare M = Inr rs" "filter_not_null rs = ?S"
      using map_prepare_persistable by blast
    from fits have "budgetStep p c now2 st1 r ?S = (st1, ?S, JSON_stringify p (roomRecord r ?S now2))"
      by (rule budgetStep_fits)
    with assms(4) rs have "st2 = AList.update ?k (JSON_stringify p (roomRecord r ?S now2)) st1"
      by (auto simp: saveRoomMessages_def Let_def setItem_def split: if_splits)
    with fits getStorageUsage_update [of ?k "JSON_stringify p (roomRecord r ?S now2)" st1]
    show ?thesis by simp
  qed
  with one s f show ?thesis by blast
qed

theorem save_twice_witness:
  "\<exists>fin. filter (\<lambda>kv. fst kv = getStorageKey ''lobby'') saved_twice =
            [(getStorageKey ''lobby'',
              JSON_stringify (browser 100000) (roomRecord ''lobby'' fin 1700000000500))] \<and>
          suffix fin (persistable_subset example_msgs) \<and>
          (getStorageUsage saved_once +
             length (JSON_stringify (browser 100000)
                       (roomRecord ''lobby'' (persistable_subset example_msgs) 1700000000500)) * 2
             \<le> STORAGE_MAX_BYTES default_config \<longrightarrow>
           fin = persistable_subset example_msgs \<and>
           getStorageUsage saved_twice \<le> STORAGE_MAX_BYTES default_config)"
proof -
  let ?p = "browser 100000"
  let ?s1 = "saveRoomMessages ?p default_config 1700000000000 [] ''lobby'' example_msgs"
  let ?s2 = "saveRoomMessages ?p default_config 1700000000500 saved_once ''lobby'' example_msgs"
  have d: "distinct (map fst ([] :: localStorage))"
    by simp
  have n: "JNull \<notin> set example_msgs"
    by (simp add: example_msgs_def text_msg_def users_msg_def file_msg_def)
  have "fst ?s1 = None"
    by (simp add: example_msgs_def example_simps)
  then have s1: "?s1 = (None, saved_once)"
    by (simp add: prod_eq_iff saved_once_def)
  have so: "saved_once = [(getStorageKey ''lobby'',
      stringify (roomRecord ''lobby'' (persistable_subset example_msgs) 1700000000000))]"
    by (simp add: saved_once_def example_msgs_def persistable_subset_def persistable_def msg_type_def
        metadata_only_def example_simps)
  have "fst ?s2 = None"
    unfolding so by (simp add: example_msgs_def persistable_subset_def persistable_def msg_type_def
        metadata_only_def example_simps)
  then have s2: "?s2 = (None, saved_twice)"
    by (simp add: prod_eq_iff saved_twice_def)
  show ?thesis
    using save_twice [OF d n s1 s2] .
qed

lemma save_over_budget:
  assumes "map_prepare M = Inr rs" and "filter_not_null rs = S"
    and "STORAGE_MAX_BYTES c < length (JSON_stringify p (roomRecord r S now)) * 2"
    and "setItem_accepts p (cleanupExpiredData p now (defaultMaxAge c) st) (getStorageKey r)
           (JSON_stringify p (roomRecord r (slice_neg (length S div 2) S) now))"
  shows "saveRoomMessages p c now st r M =
           (None, AList.update (getStorageKey r)
                    (JSON_stringify p (roomRecord r (slice_neg (length S div 2) S) now))
                    (cleanupExpiredData p now (defaultMaxAge c) st))"
  using assms by (simp add: saveRoomMessages_def budgetStep_def Let_def setItem_def)

lemma cleanupExpiredData_singleton:
  "cleanupExpiredData p now a [(k, v)] = [] \<or> cleanupExpiredData p now a [(k, v)] = [(k, v)]"
  by (simp add: cleanupExpiredData_def removeItem_def)

lemma escape_big_string:
  "concat (map (\<lambda>c. if c = CHR 0x22 \<or> c = CHR 0x5C then [CHR 0x5C, c] else [c]) big_string) = big_string"
  unfolding big_string_def by (induction "3000000 :: nat") simp_all

lemma length_big_string: "length big_string = 3000000"
  by (simp add: big_string_def)

lemmas big_simps = roomRecord_def text_msg_def quote_def show_int_def show_nat.simps
  STORAGE_VERSION_def escape_big_string length_big_string

lemma big_prepare:
  "map_prepare big_msgs = Inr [Some (text_msg big_string), Some (text_msg big_string)]"
  by (simp add: big_msgs_def text_msg_def)

lemma big_accepts:
  "st = [] \<or> st = [(getStorageKey ''lobby'', v)] \<Longrightarrow>
     setItem_accepts (browser 10000000) st (getStorageKey ''lobby'')
       (JSON_stringify (browser 10000000) (roomRecord ''lobby'' [text_msg big_string] now))
     = (length (getStorageKey ''lobby'') +
          length (stringify (roomRecord ''lobby'' [text_msg big_string] now)) \<le> 10000000)"
  by (auto simp: browser_def stored_units_def)

lemma big_update:
  "st = [] \<or> st = [(k, v)] \<Longrightarrow> AList.update k w st = [(k, w)]"
  by auto

theorem save_twice_over_budget_counterexample:
  "saveRoomMessages (browser 10000000) default_config 1700000000000 [] ''lobby'' big_msgs =
     (None, big_once) \<and>
   saveRoomMessages (browser 10000000) default_config 1700000000500 big_once ''lobby'' big_msgs =
     (None, big_twice) \<and>
   big_twice =
     [(getStorageKey ''lobby'', stringify (roomRecord ''lobby'' [text_msg big_string] 1700000000500))] \<and>
   getStorageUsage big_twice = 6000190 \<and>
   STORAGE_MAX_BYTES default_config = 5242880"
proof -
  let ?p = "browser 10000000" and ?k = "getStorageKey ''lobby''"
  let ?S = "[text_msg big_string, text_msg big_string]"
  have fn: "filter_not_null [Some (text_msg big_string), Some (text_msg big_string)] = ?S"
    by simp
  have half: "slice_neg (length ?S div 2) ?S = [text_msg big_string]"
    by (simp add: slice_neg_def)
  have over1: "STORAGE_MAX_BYTES default_config <
      length (JSON_stringify ?p (roomRecord ''lobby'' ?S 1700000000000)) * 2"
    by (simp add: browser_def default_config_def big_simps)
  have over2: "STORAGE_MAX_BYTES default_config <
      length (JSON_stringify ?p (roomRecord ''lobby'' ?S 1700000000500)) * 2"
    by (simp add: browser_def default_config_def big_simps)
  have fits1: "length ?k + length (stringify (roomRecord ''lobby'' [text_msg big_string] 1700000000000))
      \<le> 10000000"
    by (simp add: getStorageKey_def STORAGE_PREFIX_def big_simps)
  have fits2: "length ?k + length (stringify (roomRecord ''lobby'' [text_msg big_string] 1700000000500))
      \<le> 10000000"
    by (simp add: getStorageKey_def STORAGE_PREFIX_def big_simps)
  have step: "saveRoomMessages ?p default_config now st ''lobby'' big_msgs =
                (None, [(?k, stringify (roomRecord ''lobby'' [text_msg big_string] now))])"
    if ov: "STORAGE_MAX_BYTES default_config < length (JSON_stringify ?p (roomRecord ''lobby'' ?S now)) * 2"
      and ft: "length ?k + length (stringify (roomRecord ''lobby'' [text_msg big_string] now)) \<le> 10000000"
      and st: "st = [] \<or> st = [(?k, v)]" for now st v
  proof -
    let ?st1 = "cleanupExpiredData ?p now (defaultMaxAge default_config) st"
    from st cleanupExpiredData_singleton [of ?p now "defaultMaxAge default_config" ?k v]
    have c: "?st1 = [] \<or> ?st1 = [(?k, v)]"
      by (auto simp: cleanupExpiredData_def)
    have acc: "setItem_accepts ?p ?st1 ?k
        (JSON_stringify ?p (roomRecord ''lobby'' (slice_neg (length ?S div 2) ?S) now))"
      unfolding half using big_accepts [OF c] ft by simp
    have "saveRoomMessages ?p default_config now st ''lobby'' big_msgs =
        (None, AList.update ?k (JSON_stringify ?p (roomRecord ''lobby'' (slice_neg (length ?S div 2) ?S) now)) ?st1)"
      using big_prepare fn ov acc by (rule save_over_budget)
    also have "AList.update ?k (JSON_stringify ?p (roomRecord ''lobby'' (slice_neg (length ?S div 2) ?S) now)) ?st1 =
        [(?k, stringify (roomRecord ''lobby'' [text_msg big_string] now))]"
      unfolding half using big_update [OF c] by (simp add: browser_def)
    finally show ?thesis .
  qed
  have s1: "saveRoomMessages ?p default_config 1700000000000 [] ''lobby'' big_msgs =
      (None, [(?k, stringify (roomRecord ''lobby'' [text_msg big_string] 1700000000000))])"
    using over1 fits1 by (rule step) simp
  then have o: "big_once = [(?k, stringify (roomRecord ''lobby'' [text_msg big_string] 1700000000000))]"
    by (simp add: big_once_def)
  have s2: "saveRoomMessages ?p default_config 1700000000500 big_once ''lobby'' big_msgs =
      (None, [(?k, stringify (roomRecord ''lobby'' [text_msg big_string] 1700000000500))])"
    using over2 fits2 by (rule step) (simp add: o)
  then have t: "big_twice = [(?k, stringify (roomRecord ''lobby'' [text_msg big_string] 1700000000500))]"
    by (simp add: big_twice_def)
  have u: "getStorageUsage big_twice = 6000190"
    unfolding t by (simp add: getStorageUsage_def big_simps)
  have b: "STORAGE_MAX_BYTES default_config = 5242880"
    by (simp add: default_config_def)
  from s1 s2 o t u b show ?thesis by simp
qed

lemma saveCurrentRoomMessages_returns:
  "saveCurrentRoomMessages p c now st r msgs = (None, snd (saveRoomMessages p c now st r msgs))"
  by (cases "saveRoomMessages p c now st r msgs")
     (auto simp: saveCurrentRoomMessages_def split: option.splits)

lemma onMessage_single_save:
  "onMessage p c now r m a =
     a\<lparr>currentRoomMessages := currentRoomMessages a @ [m],
       store := snd (saveRoomMessages p c now (store a) r (currentRoomMessages a @ [m]))\<rparr>"
  by (simp add: onMessage_def saveCurrentRoomMessages_returns Let_def)

text \<open>
  Claim C2. The code does not do this. \<open>saveCurrentRoomMessages\<close> (room.js) catches
  the QuotaExceededError that \<open>saveRoomMessages\<close> rethrows, so the \<open>message\<close>
  handler never sees it and its escalation never starts. Here the browser refuses the
  write while the record of a room that no longer exists fills the store: the handler
  leaves the store as it is and reports nothing, although removing that record, the first
  step of the escalation, empties the store and the retry would then be accepted.
\<close>

theorem quota_escalation_never_runs:
  "saveRoomMessages (browser 150) default_config 1700000000000 stale_store ''lobby'' [text_msg ''hi''] =
     (Some QuotaExceededError, stale_store) \<and>
   onMessage (browser 150) default_config 1700000000000 ''lobby'' (text_msg ''hi'') full_app =
     full_app\<lparr>currentRoomMessages := [text_msg ''hi'']\<rparr> \<and>
   cleanupNonExistentRooms (existingRooms full_app) ''lobby'' stale_store = [] \<and>
   fst (saveRoomMessages (browser 150) default_config 1700000000000 [] ''lobby'' [text_msg ''hi'']) = None"
proof (intro conjI)
  show s: "saveRoomMessages (browser 150) default_config 1700000000000 stale_store ''lobby''
      [text_msg ''hi''] = (Some QuotaExceededError, stale_store)"
    by (simp add: stale_store_def example_simps)
  show "onMessage (browser 150) default_config 1700000000000 ''lobby'' (text_msg ''hi'') full_app =
     full_app\<lparr>currentRoomMessages := [text_msg ''hi'']\<rparr>"
    by (simp add: onMessage_single_save) (simp add: full_app_def s)
  show "cleanupNonExistentRooms (existingRooms full_app) ''lobby'' stale_store = []"
    by (simp add: full_app_def stale_store_def cleanupNonExistentRooms_def removeItem_def
        getStorageKey_def STORAGE_PREFIX_def)
  show "fst (saveRoomMessages (browser 150) default_config 1700000000000 [] ''lobby'' [text_msg ''hi'']) = None"
    by (simp add: example_simps)
qed

section \<open>Properties of the transport and of sending\<close>

lemmas transport_simps = wsOpen_def wsSend_def ws_close_def set_state_def emit_def ws_of_def
  timer_of_def retry_of_def setTimer_def updateRetry_def clearTimer_def openLobbySocket_def
  openRoomSocket_def connectLobby_def connectRoom_def joinRoom_def send_def scheduleReconnect_def
  timerFires_def lobbyOpen_def lobbyClose_def roomOpen_def closeCodeEvents_def roomClose_def
  step_def run_def new_Transport_def RETRY_BASE_MS_def RETRY_MAX_MS_def Let_def

text \<open>
  Claim C6. When a room socket closes with code 1008 or 1009 and the close is not a manual
  room switch (the manual flag is not set, or no room is current), the close handler emits \<open>closed\<close> and then an error event with code
  \<open>ws_closed_1008\<close> or \<open>ws_closed_1009\<close> and the reason, and nothing else: it sets
  no timeout, opens no socket and announces no reconnect.
\<close>

theorem terminal_close_no_reconnect:
  assumes "ev_code ev = 1008 \<or> ev_code ev = 1009"
    and "\<not> (roomManualClose t \<and> currentRoom t \<noteq> [])"
  shows "roomTimer (roomClose i ev t) = roomTimer t \<and>
         length (sockets (roomClose i ev t)) = length (sockets t) \<and>
         roomWs (roomClose i ev t) = None \<and>
         roomRetry (roomClose i ev t) = roomRetry t \<and>
         trace (roomClose i ev t) =
           trace t @
           [Emit Closed,
            Emit (ErrorEvent (if ev_code ev = 1008 then ''ws_closed_1008'' else ''ws_closed_1009'')
                    (ev_reason ev))]"
  using assms by (auto simp: roomClose_def Let_def emit_def set_state_def closeCodeEvents_def)

theorem terminal_close_no_reconnect_witness:
  "roomTimer (roomClose 0 policy_close room_a_open) = roomTimer room_a_open \<and>
   length (sockets (roomClose 0 policy_close room_a_open)) = length (sockets room_a_open) \<and>
   roomWs (roomClose 0 policy_close room_a_open) = None \<and>
   roomRetry (roomClose 0 policy_close room_a_open) = roomRetry room_a_open \<and>
   trace (roomClose 0 policy_close room_a_open) =
     trace room_a_open @ [Emit Closed, Emit (ErrorEvent ''ws_closed_1008'' ''bad username'')]"
proof -
  have a: "ev_code policy_close = 1008 \<or> ev_code policy_close = 1009"
    by (simp add: policy_close_def)
  have b: "\<not> (roomManualClose room_a_open \<and> currentRoom room_a_open \<noteq> [])"
    by (simp add: room_a_open_def transport_simps)
  show ?thesis
    using terminal_close_no_reconnect [OF a b, of 0] by (simp add: policy_close_def)
qed

text \<open>
  The direct room switch. With a username set, \<open>connectRoom(id2)\<close> on a transport whose
  room socket \<open>i\<close> is open for another room closes that socket manually: it only marks the
  close as manual, calls \<open>close()\<close> and records \<open>id2\<close>; no socket is opened and
  nothing is emitted yet. When the close handler of socket \<open>i\<close> runs next, it emits
  \<open>closed\<close> (and the error event of a terminal close code), then \<open>roomSwitch\<close> for
  \<open>id2\<close>, and then opens a new socket for \<open>id2\<close>; no timeout is pending afterwards
  and no reconnect is announced.
\<close>

lemma manual_switch_reopens:
  assumes "roomWs t = Some i" and "wsOpen t (roomWs t)" and "currentRoom t \<noteq> id2"
    and "username t \<noteq> []" and "id2 \<noteq> []"
  shows "sock_state (sockets (connectRoom id2 t) ! i) = CLOSING \<and>
         roomManualClose (connectRoom id2 t) \<and>
         currentRoom (connectRoom id2 t) = id2 \<and>
         length (sockets (connectRoom id2 t)) = length (sockets t) \<and>
         trace (connectRoom id2 t) = trace t \<and>
         roomWs (roomClose i ev (connectRoom id2 t)) = Some (length (sockets t)) \<and>
         sockets (roomClose i ev (connectRoom id2 t)) ! length (sockets t) =
           \<lparr>sock_scope = Room, sock_room = id2, sock_state = CONNECTING, sent = []\<rparr> \<and>
         sock_state (sockets (roomClose i ev (connectRoom id2 t)) ! i) = CLOSED \<and>
         roomTimer (roomClose i ev (connectRoom id2 t)) = None \<and>
         \<not> roomManualClose (roomClose i ev (connectRoom id2 t)) \<and>
         currentRoom (roomClose i ev (connectRoom id2 t)) = id2 \<and>
         trace (roomClose i ev (connectRoom id2 t)) =
           trace t @ [Emit Closed] @ closeCodeEvents ev @
           [Emit (RoomSwitch id2), NewWebSocket (length (sockets t))]"
proof -
  from assms(1,2) have i: "i < length (sockets t)" "sock_state (sockets t ! i) = OPEN"
    by (auto simp: wsOpen_def)
  let ?t1 = "connectRoom id2 t"
  from assms i have t1: "?t1 = t\<lparr>sockets := (sockets t)[i := (sockets t ! i)\<lparr>sock_state := CLOSING\<rparr>],
      roomManualClose := True, currentRoom := id2\<rparr>"
    by (simp add: connectRoom_def ws_close_def)
  show ?thesis
    unfolding t1 using i assms
    by (simp add: roomClose_def Let_def emit_def set_state_def clearTimer_def timer_of_def
        setTimer_def openRoomSocket_def nth_append)
qed

lemma manual_switch_reopens_example:
  "sock_state (sockets (connectRoom ''b'' room_a_open) ! 0) = CLOSING \<and>
   roomManualClose (connectRoom ''b'' room_a_open) \<and>
   currentRoom (connectRoom ''b'' room_a_open) = ''b'' \<and>
   length (sockets (connectRoom ''b'' room_a_open)) = length (sockets room_a_open) \<and>
   trace (connectRoom ''b'' room_a_open) = trace room_a_open \<and>
   roomWs (roomClose 0 normal_close (connectRoom ''b'' room_a_open)) = Some (length (sockets room_a_open)) \<and>
   sockets (roomClose 0 normal_close (connectRoom ''b'' room_a_open)) ! length (sockets room_a_open) =
     \<lparr>sock_scope = Room, sock_room = ''b'', sock_state = CONNECTING, sent = []\<rparr> \<and>
   sock_state (sockets (roomClose 0 normal_close (connectRoom ''b'' room_a_open)) ! 0) = CLOSED \<and>
   roomTimer (roomClose 0 normal_close (connectRoom ''b'' room_a_open)) = None \<and>
   \<not> roomManualClose (roomClose 0 normal_close (connectRoom ''b'' room_a_open)) \<and>
   currentRoom (roomClose 0 normal_close (connectRoom ''b'' room_a_open)) = ''b'' \<and>
   trace (roomClose 0 normal_close (connectRoom ''b'' room_a_open)) =
     trace room_a_open @ [Emit Closed] @ closeCodeEvents normal_close @
     [Emit (RoomSwitch ''b''), NewWebSocket (length (sockets room_a_open))]"
proof -
  have r: "room_a_open =
      \<lparr>username = ''alice'',
        sockets = [\<lparr>sock_scope = Room, sock_room = ''a'', sock_state = OPEN,
                    sent = [JObj [(''username'', JStr ''alice'')]]\<rparr>],
        lobbyWs = None, roomWs = Some 0, currentRoom = ''a'', lobbyRetry = 1000, roomRetry = 1000,
        lobbyTimer = None, roomTimer = None, roomManualClose = False,
        trace = [Emit (RoomSwitch ''a''), NewWebSocket 0, Emit (Opened ''a''),
                 Emit (Connection Room ''connected'' None (Some ''a''))]\<rparr>"
    by (simp add: room_a_open_def transport_simps)
  have a: "roomWs room_a_open = Some 0" and b: "wsOpen room_a_open (roomWs room_a_open)"
    and c: "currentRoom room_a_open \<noteq> ''b''" and d: "username room_a_open \<noteq> []"
    by (simp_all add: r wsOpen_def)
  have e: "''b'' \<noteq> []"
    by simp
  show ?thesis
    using manual_switch_reopens [OF a b c d e, of normal_close] .
qed

text \<open>
  Claim C8. The code does not keep this on every run. The transport has one manual flag and
  one \<open>roomWs\<close> for all its room sockets. Here the socket for room a was replaced, while
  connecting, by the one for room b, which is open; \<open>connectRoom\<close> for room c then
  closes the open socket manually. The abandoned socket for room a closes first: its close
  handler takes the manual flag and opens the socket for room c. When the close of the
  manually closed socket completes, its handler finds no flag: it clears \<open>roomWs\<close>,
  opens nothing and sets a reconnect timeout of 1000 ms.
\<close>

theorem manual_switch_lost_to_stale_close:
  "username switch_race_pre = ''alice'' \<and>
   roomWs switch_race_pre = Some 1 \<and>
   wsOpen switch_race_pre (roomWs switch_race_pre) \<and>
   currentRoom switch_race_pre = ''b'' \<and>
   map sock_state (sockets switch_race_pre) = [CONNECTING, OPEN] \<and>
   map sock_state (sockets (connectRoom ''c'' switch_race_pre)) = [CONNECTING, CLOSING] \<and>
   roomManualClose (connectRoom ''c'' switch_race_pre) \<and>
   map sock_state (sockets switch_race_run) = [CLOSED, CLOSED, CONNECTING] \<and>
   map sock_room (sockets switch_race_run) = [''a'', ''b'', ''c''] \<and>
   roomWs switch_race_run = None \<and>
   roomTimer switch_race_run = Some \<lparr>timer_delay = 1000, timer_room = ''c''\<rparr> \<and>
   trace switch_race_run =
     trace switch_race_pre @
     [Emit Closed, Emit (RoomSwitch ''c''), NewWebSocket 2,
      Emit Closed, Emit (Connection Room ''reconnecting'' (Some 1000) (Some ''c''))]"
proof -
  have pre: "switch_race_pre =
      \<lparr>username = ''alice'',
        sockets = [\<lparr>sock_scope = Room, sock_room = ''a'', sock_state = CONNECTING, sent = []\<rparr>,
                   \<lparr>sock_scope = Room, sock_room = ''b'', sock_state = OPEN,
                     sent = [JObj [(''username'', JStr ''alice'')]]\<rparr>],
        lobbyWs = None, roomWs = Some 1, currentRoom = ''b'', lobbyRetry = 1000, roomRetry = 1000,
        lobbyTimer = None, roomTimer = None, roomManualClose = False,
        trace = [Emit (RoomSwitch ''a''), NewWebSocket 0, Emit (RoomSwitch ''b''), NewWebSocket 1,
                 Emit (Opened ''b''), Emit (Connection Room ''connected'' None (Some ''b''))]\<rparr>"
    by (simp add: switch_race_pre_def transport_simps)
  show ?thesis
    unfolding switch_race_run_def pre
    by (simp add: abnormal_close_def normal_close_def transport_simps)
qed







text \<open>
  Claim C7. The code does not keep the second half. \<open>connectRoom\<close> and the timeout
  callback start no room connection without a username (lemma \<open>room_connect_gated\<close>),
  but the open handler of a room socket sends the handshake to, or closes, whatever socket
  \<open>roomWs\<close> refers to at that moment. Here \<open>connectRoom\<close> is called for room b while
  the socket for room a is still connecting: nothing closes that socket, and when it opens
  it gets no handshake and is not closed.
\<close>

theorem handshake_missed_on_replaced_socket:
  "username replaced_socket_run = ''alice'' \<and>
   length (sockets replaced_socket_run) = 2 \<and>
   sock_room (sockets replaced_socket_run ! 0) = ''a'' \<and>
   sock_state (sockets replaced_socket_run ! 0) = OPEN \<and>
   sent (sockets replaced_socket_run ! 0) = [] \<and>
   roomWs replaced_socket_run = Some 1 \<and>
   sock_state (sockets replaced_socket_run ! 1) = CONNECTING \<and>
   sent (sockets replaced_socket_run ! 1) = []"
  by (simp add: replaced_socket_run_def transport_simps)

lemma room_connect_gated:
  "username t = [] \<Longrightarrow> connectRoom roomId t = t \<and> joinRoom roomId t = t \<and>
     sockets (timerFires Room t) = sockets t \<and> trace (timerFires Room t) = trace t"
  by (simp add: connectRoom_def joinRoom_def timerFires_def setTimer_def updateRetry_def
      Let_def split: option.splits)

lemma room_open_current_socket:
  assumes "roomWs t = Some i" and "i < length (sockets t)"
  shows "username t \<noteq> [] \<Longrightarrow>
           sent (sockets (roomOpen i t) ! i) =
             sent (sockets t ! i) @ [JObj [(''username'', JStr (username t))]] \<and>
           sock_state (sockets (roomOpen i t) ! i) = OPEN"
    and "username t = [] \<Longrightarrow>
           sent (sockets (roomOpen i t) ! i) = sent (sockets t ! i) \<and>
           sock_state (sockets (roomOpen i t) ! i) = CLOSING"
  using assms
  by (simp_all add: roomOpen_def Let_def set_state_def wsSend_def wsOpen_def emit_def ws_close_def)










lemma js_trim_unicode:
  "js_trim ([CHR 0xE3, CHR 0x80, CHR 0x80] @ ''hi'' @ [CHR 0xC2, CHR 0xA0, CHR 0x0A]) = ''hi''"
  by (simp add: js_trim_def strip.simps [of _ "c # cs" for c cs] strip.simps [of _ "[]"] WHITE_SPACE_def)





end
